theory Spec2Isabelle
  imports Main
begin

section \<open>The GitHub-to-Discord webhook relay (main.go)\<close>

text \<open>
  The relay receives a GitHub webhook over HTTP, decodes the JSON body into a
  \<open>GitHubEvent\<close>, routes it by the \<open>X-GitHub-Event\<close> header to one of two handlers,
  and each handler either drops the event or posts one Discord message to a channel
  webhook. Everything the Go code does besides returning is written out as a list of
  effects in program order: a log line (\<open>log.Printf\<close>, kept as its format string and
  arguments) or an outbound HTTP POST (the call of \<open>http.Post\<close>, kept as its URL and
  the message whose JSON encoding is the body). A POST counts as issued when the call is
  made; whether it reaches Discord is the network's part, and the relay only logs it.
\<close>

subsection \<open>GitHub webhook payload structures\<close>

text \<open>
  Go structs as records. Several Go structs have a field \<open>HTMLURL\<close>, \<open>Name\<close> or
  \<open>Title\<close>; the record fields carry a prefix for their struct to keep them apart.
  Go's \<open>int\<close> is kept as \<open>int\<close>; the only place where its width matters is the
  JSON decoder, which rejects numbers outside the 64-bit range.
\<close>

record Repository =
  repo_FullName :: string
  repo_HTMLURL :: string

record Sender =
  sender_Login :: string
  sender_HTMLURL :: string

record PullRequest =
  pr_Number :: int
  pr_Title :: string
  pr_HTMLURL :: string
  pr_Merged :: bool
  pr_State :: string

record WorkflowRun =
  run_Name :: string
  run_Status :: string
  run_Conclusion :: string
  run_HTMLURL :: string

record GitHubEvent =
  Action :: string
  Repository :: Repository
  Sender :: Sender
  PullRequest :: PullRequest
  WorkflowRun :: WorkflowRun

subsection \<open>Discord message structures\<close>

record DiscordEmbedField =
  Name :: string
  Value :: string
  Inline :: bool

record DiscordEmbed =
  Title :: string
  Description :: string
  Color :: int
  URL :: string
  Fields :: "DiscordEmbedField list"

record DiscordMessage =
  Content :: string
  Embeds :: "DiscordEmbed list"

subsection \<open>Channel webhook URLs\<close>

text \<open>
  The two package-level variables, set once in \<open>main\<close> and only read afterwards, are
  passed to the handlers as a record.
\<close>

record channels =
  developmentChannelWebhook :: string
  testingChannelWebhook :: string

subsection \<open>Effects, errors and the network\<close>

datatype error = ReadError | SyntaxError | UnmarshalTypeError | TransportError

datatype log_arg = Str string | Num int | Err error

datatype effect =
  Logf string "log_arg list"
| Post string DiscordMessage

text \<open>
  What \<open>http.Post\<close> returns is decided by the world outside the program: a transport
  error, or a response with a status code and a body.
\<close>

datatype post_result = PostFailed | PostResponse int string

type_synonym network = "string \<Rightarrow> DiscordMessage \<Rightarrow> post_result"

text \<open>The outbound requests among the effects, in order.\<close>

fun posts :: "effect list \<Rightarrow> (string \<times> DiscordMessage) list" where
  "posts [] = []"
| "posts (Post u m # es) = (u, m) # posts es"
| "posts (Logf f as # es) = posts es"

subsection \<open>Formatting\<close>

text \<open>\<open>%d\<close> of \<open>fmt.Sprintf\<close>: decimal digits, with a minus sign for a negative number.\<close>

fun digits :: "nat \<Rightarrow> string" where
  "digits n =
     (if n < 10 then [char_of (48 + n)]
      else digits (n div 10) @ [char_of (48 + n mod 10)])"

declare digits.simps [simp del]

definition fmt_d :: "int \<Rightarrow> string" where
  "fmt_d i = (if i < 0 then CHR ''-'' # digits (nat (- i)) else digits (nat i))"

subsection \<open>sendDiscordMessage\<close>

text \<open>
  \<open>json.Marshal\<close> fails only on values that have no JSON form (channels, functions,
  cyclic data, non-finite floats); a \<open>DiscordMessage\<close> holds strings, integers,
  booleans and slices of these, so the first early return is never taken and the POST
  is always issued.
\<close>

definition sendDiscordMessage :: "network \<Rightarrow> string \<Rightarrow> DiscordMessage \<Rightarrow> effect list" where
  "sendDiscordMessage net webhookURL message =
     Post webhookURL message #
     (case net webhookURL message of
        PostFailed \<Rightarrow> [Logf ''Error sending Discord message: %v'' [Err TransportError]]
      | PostResponse code bodyBytes \<Rightarrow>
          if code < 200 \<or> code \<ge> 300
          then [Logf ''Discord API error (status %d): %s'' [Num code, Str bodyBytes]]
          else [Logf ''Discord message sent successfully'' []])"

subsection \<open>handlePullRequestEvent\<close>

text \<open>The Go map literal; a lookup of a missing key yields \<open>false\<close>.\<close>

definition actionsToProcess :: "string \<rightharpoonup> bool" where
  "actionsToProcess =
     [''opened'' \<mapsto> True, ''reopened'' \<mapsto> True, ''ready_for_review'' \<mapsto> True,
      ''closed'' \<mapsto> True]"

definition lookup_bool :: "(string \<rightharpoonup> bool) \<Rightarrow> string \<Rightarrow> bool" where
  "lookup_bool m k = (case m k of None \<Rightarrow> False | Some b \<Rightarrow> b)"

definition handlePullRequestEvent :: "channels \<Rightarrow> network \<Rightarrow> GitHubEvent \<Rightarrow> effect list" where
  "handlePullRequestEvent cfg net event =
     Logf ''Processing pull request event: %s'' [Str (Action event)] #
     (if \<not> lookup_bool actionsToProcess (Action event)
      then [Logf ''Ignoring PR action: %s'' [Str (Action event)]]
      else if Action event = ''closed'' \<and> \<not> pr_Merged (PullRequest event)
      then [Logf ''PR was closed without merging, not sending notification'' []]
      else
        let color = (if Action event = ''closed'' \<and> pr_Merged (PullRequest event)
                     then 0x6E48CD else 0x1D82F7);
            actionDesc = (if Action event = ''closed'' \<and> pr_Merged (PullRequest event)
                          then ''merged'' else Action event);
            message = \<lparr>Content = '''', Embeds = [
              \<lparr>Title = ''Pull Request '' @ actionDesc,
               Description = ''**'' @ sender_Login (Sender event) @ ''** '' @ actionDesc @
                 '' [#'' @ fmt_d (pr_Number (PullRequest event)) @ '': '' @
                 pr_Title (PullRequest event) @ ''](''  @ pr_HTMLURL (PullRequest event) @ '')'',
               Color = color,
               URL = pr_HTMLURL (PullRequest event),
               Fields = [
                 \<lparr>Name = ''Repository'',
                  Value = ''['' @ repo_FullName (Repository event) @ ''](''  @
                          repo_HTMLURL (Repository event) @ '')'',
                  Inline = True\<rparr>,
                 \<lparr>Name = ''PR Status'',
                  Value = pr_State (PullRequest event),
                  Inline = True\<rparr>]\<rparr>]\<rparr>
        in sendDiscordMessage net (developmentChannelWebhook cfg) message)"

subsection \<open>handleWorkflowRunEvent\<close>

definition handleWorkflowRunEvent :: "channels \<Rightarrow> network \<Rightarrow> GitHubEvent \<Rightarrow> effect list" where
  "handleWorkflowRunEvent cfg net event =
     Logf ''Processing workflow run event: %s'' [Str (Action event)] #
     (if Action event \<noteq> ''completed''
      then [Logf ''Ignoring workflow run action: %s'' [Str (Action event)]]
      else
        let conclusion = run_Conclusion (WorkflowRun event);
            color = (if conclusion = ''success'' then 0x2ECC71
                     else if conclusion = ''failure'' then 0xE74C3C
                     else if conclusion = ''cancelled'' then 0xF39C12
                     else if conclusion = ''skipped'' then 0x95A5A6
                     else 0xE6E6E6);
            message = \<lparr>Content = '''', Embeds = [
              \<lparr>Title = ''Workflow Run '' @ conclusion,
               Description = ''Workflow **'' @ run_Name (WorkflowRun event) @ ''** '' @ conclusion,
               Color = color,
               URL = run_HTMLURL (WorkflowRun event),
               Fields = [
                 \<lparr>Name = ''Repository'',
                  Value = ''['' @ repo_FullName (Repository event) @ ''](''  @
                          repo_HTMLURL (Repository event) @ '')'',
                  Inline = True\<rparr>,
                 \<lparr>Name = ''Triggered by'',
                  Value = ''['' @ sender_Login (Sender event) @ ''](''  @
                          sender_HTMLURL (Sender event) @ '')'',
                  Inline = True\<rparr>]\<rparr>]\<rparr>
        in sendDiscordMessage net (testingChannelWebhook cfg) message)"

subsection \<open>The JSON decoder\<close>

text \<open>
  \<open>json.Unmarshal\<close> belongs to Go's standard library. It first scans the bytes and
  returns a syntax error unless they are one well-formed JSON text; then it stores the
  parsed value into the target struct. A body is represented by what the scanner makes
  of it: malformed, or the JSON value it denotes, with string escapes resolved, object
  members in document order (duplicates kept) and number literals as written.
\<close>

datatype json =
  JNull
| JBool bool
| JNumber string
| JString string
| JArray "json list"
| JObject "(string \<times> json) list"

datatype payload = Malformed | Wellformed json

text \<open>
  \<open>strconv.ParseInt(s, 10, 64)\<close>, which the decoder applies to a number literal bound
  for an \<open>int\<close> field: an optional sign, then decimal digits only, and the value
  within 64 bits. A literal with a fraction or an exponent does not parse.
\<close>

definition is_digit :: "char \<Rightarrow> bool" where
  "is_digit c = (48 \<le> (of_char c :: nat) \<and> (of_char c :: nat) \<le> 57)"

definition digits_value :: "string \<Rightarrow> nat option" where
  "digits_value ds =
     (if ds \<noteq> [] \<and> list_all is_digit ds
      then Some (foldl (\<lambda>n c. 10 * n + (of_char c - 48)) 0 ds)
      else None)"

definition ParseInt :: "string \<Rightarrow> int option" where
  "ParseInt s =
     (case s of
        [] \<Rightarrow> None
      | c # ds \<Rightarrow>
          let neg = (c = CHR ''-'');
              body = (if c = CHR ''-'' \<or> c = CHR ''+'' then ds else s)
          in case digits_value body of
               None \<Rightarrow> None
             | Some n \<Rightarrow>
                 let i = (if neg then - int n else int n)
                 in if - (2 ^ 63) \<le> i \<and> i < 2 ^ 63 then Some i else None)"

text \<open>
  Storing a JSON value into a field of a basic kind. \<open>null\<close> leaves the field as it
  is; a value of the matching JSON type is stored; anything else is an
  \<open>UnmarshalTypeError\<close>. The decoder keeps the first such error and returns it at the
  end, so the caller sees an error exactly when some store failed.
\<close>

definition store_string :: "json \<Rightarrow> string \<Rightarrow> error + string" where
  "store_string j cur =
     (case j of JNull \<Rightarrow> Inr cur | JString s \<Rightarrow> Inr s | _ \<Rightarrow> Inl UnmarshalTypeError)"

definition store_bool :: "json \<Rightarrow> bool \<Rightarrow> error + bool" where
  "store_bool j cur =
     (case j of JNull \<Rightarrow> Inr cur | JBool b \<Rightarrow> Inr b | _ \<Rightarrow> Inl UnmarshalTypeError)"

definition store_int :: "json \<Rightarrow> int \<Rightarrow> error + int" where
  "store_int j cur =
     (case j of
        JNull \<Rightarrow> Inr cur
      | JNumber lit \<Rightarrow> (case ParseInt lit of None \<Rightarrow> Inl UnmarshalTypeError | Some i \<Rightarrow> Inr i)
      | _ \<Rightarrow> Inl UnmarshalTypeError)"

text \<open>
  An object key selects the struct field whose \<open>json\<close> tag equals it, or else the
  field whose tag equals it under case folding; a key that selects no field is skipped.
  The tags here are ASCII. Folding maps each character to the least one of its case
  orbit, and the only characters outside ASCII that share an orbit with an ASCII letter
  are the Kelvin sign (bytes E2 84 AA, with K) and the long s (bytes C5 BF, with S);
  bytes of other characters are left as they are, which does not change any comparison
  with a folded tag.
\<close>

definition upper :: "char \<Rightarrow> char" where
  "upper c =
     (if 97 \<le> (of_char c :: nat) \<and> (of_char c :: nat) \<le> 122
      then char_of ((of_char c :: nat) - 32) else c)"

fun foldName :: "string \<Rightarrow> string" where
  "foldName (a # b # c # s) =
     (if a = CHR 0xE2 \<and> b = CHR 0x84 \<and> c = CHR 0xAA then CHR ''K'' # foldName s
      else if a = CHR 0xC5 \<and> b = CHR 0xBF then CHR ''S'' # foldName (c # s)
      else upper a # foldName (b # c # s))"
| "foldName [a, b] =
     (if a = CHR 0xC5 \<and> b = CHR 0xBF then ''S'' else [upper a, upper b])"
| "foldName [a] = [upper a]"
| "foldName [] = []"

definition field_for :: "(string \<times> 'd) list \<Rightarrow> string \<Rightarrow> 'd option" where
  "field_for fs key =
     (case map_of fs key of
        Some d \<Rightarrow> Some d
      | None \<Rightarrow> map_of (map (\<lambda>(n, d). (foldName n, d)) fs) (foldName key))"

text \<open>
  The members of an object are stored one after another into the same struct, so a
  repeated key overwrites (or, for a nested struct, merges into) what an earlier one
  stored.
\<close>

fun decode_members ::
  "(string \<times> (json \<Rightarrow> 'a \<Rightarrow> error + 'a)) list \<Rightarrow> (string \<times> json) list \<Rightarrow> 'a \<Rightarrow> error + 'a" where
  "decode_members fs [] cur = Inr cur"
| "decode_members fs ((k, v) # ms) cur =
     (case field_for fs k of
        None \<Rightarrow> decode_members fs ms cur
      | Some dec \<Rightarrow>
          (case dec v cur of
             Inl e \<Rightarrow> Inl e
           | Inr cur' \<Rightarrow> decode_members fs ms cur'))"

definition decode_struct ::
  "(string \<times> (json \<Rightarrow> 'a \<Rightarrow> error + 'a)) list \<Rightarrow> json \<Rightarrow> 'a \<Rightarrow> error + 'a" where
  "decode_struct fs j cur =
     (case j of
        JNull \<Rightarrow> Inr cur
      | JObject ms \<Rightarrow> decode_members fs ms cur
      | _ \<Rightarrow> Inl UnmarshalTypeError)"

text \<open>The fields of each struct by their \<open>json\<close> tags, in declaration order.\<close>

definition Repository_fields :: "(string \<times> (json \<Rightarrow> Repository \<Rightarrow> error + Repository)) list" where
  "Repository_fields =
     [(''full_name'', \<lambda>j r. map_sum id (\<lambda>s. r\<lparr>repo_FullName := s\<rparr>) (store_string j (repo_FullName r))),
      (''html_url'', \<lambda>j r. map_sum id (\<lambda>s. r\<lparr>repo_HTMLURL := s\<rparr>) (store_string j (repo_HTMLURL r)))]"

definition Sender_fields :: "(string \<times> (json \<Rightarrow> Sender \<Rightarrow> error + Sender)) list" where
  "Sender_fields =
     [(''login'', \<lambda>j r. map_sum id (\<lambda>s. r\<lparr>sender_Login := s\<rparr>) (store_string j (sender_Login r))),
      (''html_url'', \<lambda>j r. map_sum id (\<lambda>s. r\<lparr>sender_HTMLURL := s\<rparr>) (store_string j (sender_HTMLURL r)))]"

definition PullRequest_fields :: "(string \<times> (json \<Rightarrow> PullRequest \<Rightarrow> error + PullRequest)) list" where
  "PullRequest_fields =
     [(''number'', \<lambda>j r. map_sum id (\<lambda>i. r\<lparr>pr_Number := i\<rparr>) (store_int j (pr_Number r))),
      (''title'', \<lambda>j r. map_sum id (\<lambda>s. r\<lparr>pr_Title := s\<rparr>) (store_string j (pr_Title r))),
      (''html_url'', \<lambda>j r. map_sum id (\<lambda>s. r\<lparr>pr_HTMLURL := s\<rparr>) (store_string j (pr_HTMLURL r))),
      (''merged'', \<lambda>j r. map_sum id (\<lambda>b. r\<lparr>pr_Merged := b\<rparr>) (store_bool j (pr_Merged r))),
      (''state'', \<lambda>j r. map_sum id (\<lambda>s. r\<lparr>pr_State := s\<rparr>) (store_string j (pr_State r)))]"

definition WorkflowRun_fields :: "(string \<times> (json \<Rightarrow> WorkflowRun \<Rightarrow> error + WorkflowRun)) list" where
  "WorkflowRun_fields =
     [(''name'', \<lambda>j r. map_sum id (\<lambda>s. r\<lparr>run_Name := s\<rparr>) (store_string j (run_Name r))),
      (''status'', \<lambda>j r. map_sum id (\<lambda>s. r\<lparr>run_Status := s\<rparr>) (store_string j (run_Status r))),
      (''conclusion'', \<lambda>j r. map_sum id (\<lambda>s. r\<lparr>run_Conclusion := s\<rparr>) (store_string j (run_Conclusion r))),
      (''html_url'', \<lambda>j r. map_sum id (\<lambda>s. r\<lparr>run_HTMLURL := s\<rparr>) (store_string j (run_HTMLURL r)))]"

definition GitHubEvent_fields :: "(string \<times> (json \<Rightarrow> GitHubEvent \<Rightarrow> error + GitHubEvent)) list" where
  "GitHubEvent_fields =
     [(''action'', \<lambda>j r. map_sum id (\<lambda>s. r\<lparr>Action := s\<rparr>) (store_string j (Action r))),
      (''repository'', \<lambda>j r. map_sum id (\<lambda>x. r\<lparr>Repository := x\<rparr>)
          (decode_struct Repository_fields j (Repository r))),
      (''sender'', \<lambda>j r. map_sum id (\<lambda>x. r\<lparr>Sender := x\<rparr>)
          (decode_struct Sender_fields j (Sender r))),
      (''pull_request'', \<lambda>j r. map_sum id (\<lambda>x. r\<lparr>PullRequest := x\<rparr>)
          (decode_struct PullRequest_fields j (PullRequest r))),
      (''workflow_run'', \<lambda>j r. map_sum id (\<lambda>x. r\<lparr>WorkflowRun := x\<rparr>)
          (decode_struct WorkflowRun_fields j (WorkflowRun r)))]"

text \<open>The zero value of \<open>var event GitHubEvent\<close>.\<close>

definition zero_GitHubEvent :: GitHubEvent where
  "zero_GitHubEvent =
     \<lparr>Action = '''',
      Repository = \<lparr>repo_FullName = '''', repo_HTMLURL = ''''\<rparr>,
      Sender = \<lparr>sender_Login = '''', sender_HTMLURL = ''''\<rparr>,
      PullRequest = \<lparr>pr_Number = 0, pr_Title = '''', pr_HTMLURL = '''', pr_Merged = False,
                     pr_State = ''''\<rparr>,
      WorkflowRun = \<lparr>run_Name = '''', run_Status = '''', run_Conclusion = '''',
                     run_HTMLURL = ''''\<rparr>\<rparr>"

definition Unmarshal :: "payload \<Rightarrow> error + GitHubEvent" where
  "Unmarshal data =
     (case data of
        Malformed \<Rightarrow> Inl SyntaxError
      | Wellformed j \<Rightarrow> decode_struct GitHubEvent_fields j zero_GitHubEvent)"

subsection \<open>handleGitHubWebhook\<close>

text \<open>
  The request as the handler reads it: its headers (each name, in the spelling the
  handler asks for, with its first value; a missing header reads as the empty string)
  and its body, which \<open>io.ReadAll\<close> either fails to read or returns.
  The response is the status code and the \<open>gin.H\<close> object given to \<open>c.JSON\<close>.
\<close>

datatype request_body = Unreadable | Body payload

record response =
  status :: int
  obj :: "(string \<times> string) list"

definition GetHeader :: "(string \<times> string) list \<Rightarrow> string \<Rightarrow> string" where
  "GetHeader headers key = (case map_of headers key of None \<Rightarrow> '''' | Some v \<Rightarrow> v)"

definition handleGitHubWebhook ::
  "channels \<Rightarrow> network \<Rightarrow> (string \<times> string) list \<Rightarrow> request_body \<Rightarrow> effect list \<times> response" where
  "handleGitHubWebhook cfg net headers reqBody =
     (let eventType = GetHeader headers ''X-GitHub-Event'';
          received = Logf ''Received GitHub webhook event: %s'' [Str eventType]
      in case reqBody of
           Unreadable \<Rightarrow>
             ([received, Logf ''Error reading request body: %v'' [Err ReadError]],
              \<lparr>status = 400, obj = [(''error'', ''Unable to read request body'')]\<rparr>)
         | Body body \<Rightarrow>
             (case Unmarshal body of
                Inl err \<Rightarrow>
                  ([received, Logf ''Error parsing webhook payload: %v'' [Err err]],
                   \<lparr>status = 400, obj = [(''error'', ''Invalid JSON payload'')]\<rparr>)
              | Inr event \<Rightarrow>
                  (received #
                   (if eventType = ''pull_request'' then handlePullRequestEvent cfg net event
                    else if eventType = ''workflow_run'' then handleWorkflowRunEvent cfg net event
                    else [Logf ''Ignoring unhandled event type: %s'' [Str eventType]]),
                   \<lparr>status = 200, obj = [(''message'', ''Webhook received successfully'')]\<rparr>)))"

subsection \<open>Example inputs\<close>

text \<open>
  Concrete channels, networks, events and payloads on which the theorems below are
  instantiated. \<open>opened_event\<close> and \<open>failure_event\<close> are the two scenarios that the
  description of the relay spells out.
\<close>

definition example_channels :: channels where
  "example_channels =
     \<lparr>developmentChannelWebhook = ''https://discord.test/dev'',
      testingChannelWebhook = ''https://discord.test/testing''\<rparr>"

definition other_channels :: channels where
  "other_channels =
     \<lparr>developmentChannelWebhook = ''https://elsewhere.test/dev'',
      testingChannelWebhook = ''https://elsewhere.test/testing''\<rparr>"

definition accepting_network :: network where
  "accepting_network = (\<lambda>url message. PostResponse 204 '''')"

definition failing_network :: network where
  "failing_network = (\<lambda>url message. PostFailed)"

definition opened_event :: GitHubEvent where
  "opened_event =
     \<lparr>Action = ''opened'',
      Repository = \<lparr>repo_FullName = ''org/repo'', repo_HTMLURL = ''http://x''\<rparr>,
      Sender = \<lparr>sender_Login = ''alice'', sender_HTMLURL = ''''\<rparr>,
      PullRequest = \<lparr>pr_Number = 42, pr_Title = ''Fix bug'', pr_HTMLURL = ''http://x/42'',
                     pr_Merged = False, pr_State = ''''\<rparr>,
      WorkflowRun = \<lparr>run_Name = '''', run_Status = '''', run_Conclusion = '''',
                     run_HTMLURL = ''''\<rparr>\<rparr>"

definition merged_event :: GitHubEvent where
  "merged_event =
     opened_event\<lparr>Action := ''closed'',
                   PullRequest := (PullRequest opened_event)\<lparr>pr_Merged := True,
                                                              pr_State := ''closed''\<rparr>\<rparr>"

definition closed_event :: GitHubEvent where
  "closed_event = opened_event\<lparr>Action := ''closed''\<rparr>"

definition labeled_event :: GitHubEvent where
  "labeled_event = opened_event\<lparr>Action := ''labeled''\<rparr>"

definition failure_event :: GitHubEvent where
  "failure_event =
     \<lparr>Action = ''completed'',
      Repository = \<lparr>repo_FullName = ''org/repo'', repo_HTMLURL = ''http://x''\<rparr>,
      Sender = \<lparr>sender_Login = ''alice'', sender_HTMLURL = ''http://x/alice''\<rparr>,
      PullRequest = \<lparr>pr_Number = 0, pr_Title = '''', pr_HTMLURL = '''', pr_Merged = False,
                     pr_State = ''''\<rparr>,
      WorkflowRun = \<lparr>run_Name = ''CI'', run_Status = ''completed'',
                     run_Conclusion = ''failure'', run_HTMLURL = ''http://x/run''\<rparr>\<rparr>"

definition queued_event :: GitHubEvent where
  "queued_event = failure_event\<lparr>Action := ''queued''\<rparr>"

text \<open>
  The body \<open>{"action": "opened", "pull_request": {"number": 42, "title": "Fix bug",
  "html_url": "http://x/42"}, "sender": {"login": "alice"}, "repository": {"full_name":
  "org/repo", "html_url": "http://x"}}\<close>, and the body \<open>{"action": 1}\<close>, which is
  well-formed JSON whose \<open>action\<close> is a number where the struct has a string.
\<close>

definition opened_payload :: payload where
  "opened_payload =
     Wellformed (JObject
       [(''action'', JString ''opened''),
        (''pull_request'', JObject
           [(''number'', JNumber ''42''), (''title'', JString ''Fix bug''),
            (''html_url'', JString ''http://x/42'')]),
        (''sender'', JObject [(''login'', JString ''alice'')]),
        (''repository'', JObject
           [(''full_name'', JString ''org/repo''), (''html_url'', JString ''http://x'')])])"

definition mistyped_payload :: payload where
  "mistyped_payload = Wellformed (JObject [(''action'', JNumber ''1'')])"

text \<open>
  The body \<open>{"action": "completed", "workflow_run": {"name": "CI", "conclusion":
  "failure", "html_url": "http://x/run"}}\<close>.
\<close>

definition failure_payload :: payload where
  "failure_payload =
     Wellformed (JObject
       [(''action'', JString ''completed''),
        (''workflow_run'', JObject
           [(''name'', JString ''CI''), (''conclusion'', JString ''failure''),
            (''html_url'', JString ''http://x/run'')])])"

section \<open>Properties\<close>

subsection \<open>Auxiliary facts\<close>

lemma lookup_actionsToProcess:
  "lookup_bool actionsToProcess a \<longleftrightarrow>
     a = ''opened'' \<or> a = ''reopened'' \<or> a = ''ready_for_review'' \<or> a = ''closed''"
  by (simp add: lookup_bool_def actionsToProcess_def)

lemma posts_sendDiscordMessage:
  "posts (sendDiscordMessage net webhookURL message) = [(webhookURL, message)]"
  by (simp add: sendDiscordMessage_def split: post_result.split)

lemma handlePullRequestEvent_notifies_iff:
  "posts (handlePullRequestEvent cfg net event) \<noteq> [] \<longleftrightarrow>
     Action event = ''opened'' \<or> Action event = ''reopened'' \<or>
     Action event = ''ready_for_review'' \<or>
     (Action event = ''closed'' \<and> pr_Merged (PullRequest event))"
  by (auto simp add: handlePullRequestEvent_def lookup_actionsToProcess
      posts_sendDiscordMessage Let_def)

lemma handleWorkflowRunEvent_notifies_iff:
  "posts (handleWorkflowRunEvent cfg net event) \<noteq> [] \<longleftrightarrow> Action event = ''completed''"
  by (simp add: handleWorkflowRunEvent_def posts_sendDiscordMessage Let_def)

lemma fmt_d_42: "fmt_d 42 = ''42''"
  by code_simp

lemma Unmarshal_opened_payload: "Unmarshal opened_payload = Inr opened_event"
  by code_simp

lemma Unmarshal_mistyped_payload: "Unmarshal mistyped_payload = Inl UnmarshalTypeError"
  by code_simp

text \<open>
  The two decimal conversions agree: what \<open>%d\<close> prints for a 64-bit integer,
  \<open>strconv.ParseInt\<close> reads back. In particular \<open>%d\<close> prints different numbers
  differently.
\<close>

lemma is_digit_char_of: "d < 10 \<Longrightarrow> is_digit (char_of (48 + d :: nat))"
  by (simp add: is_digit_def)

lemma list_all_is_digit_digits: "list_all is_digit (digits n)"
proof (induction n rule: digits.induct)
  case (1 n)
  show ?case
  proof (cases "n < 10")
    case True
    then show ?thesis by (subst digits.simps) (simp add: is_digit_char_of)
  next
    case False
    with "1" show ?thesis by (subst digits.simps) (simp add: is_digit_char_of)
  qed
qed

lemma digits_not_Nil: "digits n \<noteq> []"
  by (subst digits.simps) simp

lemma foldl_digits:
  "foldl (\<lambda>n c. 10 * n + (of_char c - 48)) 0 (digits n) = n"
proof (induction n rule: digits.induct)
  case (1 n)
  show ?case
  proof (cases "n < 10")
    case True
    then show ?thesis by (subst digits.simps) simp
  next
    case False
    with "1" show ?thesis by (subst digits.simps) simp
  qed
qed

lemma digits_value_digits: "digits_value (digits n) = Some n"
  by (simp add: digits_value_def digits_not_Nil list_all_is_digit_digits foldl_digits)

lemma hd_digits_is_digit: "is_digit (hd (digits n))"
  using list_all_is_digit_digits [of n] digits_not_Nil [of n]
  by (cases "digits n") simp_all

lemma ParseInt_fmt_d:
  assumes "- (2 ^ 63) \<le> i" and "i < 2 ^ 63"
  shows "ParseInt (fmt_d i) = Some i"
proof (cases "i < 0")
  case True
  with assms show ?thesis
    by (simp add: ParseInt_def fmt_d_def digits_value_digits)
next
  case False
  obtain c cs where cs: "digits (nat i) = c # cs"
    using digits_not_Nil [of "nat i"] by (cases "digits (nat i)") auto
  with hd_digits_is_digit [of "nat i"] have "is_digit c" by simp
  then have "c \<noteq> CHR ''-''" and "c \<noteq> CHR ''+''"
    by (auto simp add: is_digit_def)
  moreover have "digits_value (c # cs) = Some (nat i)"
    using digits_value_digits [of "nat i"] cs by simp
  ultimately show ?thesis
    using False assms cs by (simp add: ParseInt_def fmt_d_def)
qed

lemma fmt_d_inject:
  assumes i: "- (2 ^ 63) \<le> i" "i < 2 ^ 63" and j: "- (2 ^ 63) \<le> j" "j < 2 ^ 63"
    and eq: "fmt_d i = fmt_d j"
  shows "i = j"
proof -
  have "Some i = ParseInt (fmt_d i)"
    using i by (rule ParseInt_fmt_d [symmetric])
  also have "\<dots> = ParseInt (fmt_d j)"
    by (simp only: eq)
  also have "\<dots> = Some j"
    using j by (rule ParseInt_fmt_d)
  finally show ?thesis by (simp only: option.inject)
qed

subsection \<open>The pull-request handler\<close>

text \<open>
  Claim C1. For every pull-request event whose action is \<open>opened\<close>, \<open>reopened\<close> or
  \<open>ready_for_review\<close>, the handler issues exactly one outbound request; it goes to the
  development channel, its message has one embed of color 0x1D82F7, and the display
  label, as it appears in the embed's title and description, is the action itself.
\<close>

theorem pull_request_opened_notifies_development:
  assumes "Action event = ''opened'' \<or> Action event = ''reopened'' \<or>
           Action event = ''ready_for_review''"
  shows "\<exists>message embed.
           posts (handlePullRequestEvent cfg net event) =
             [(developmentChannelWebhook cfg, message)] \<and>
           Embeds message = [embed] \<and>
           Color embed = 0x1D82F7 \<and>
           Title embed = ''Pull Request '' @ Action event \<and>
           Description embed =
             ''**'' @ sender_Login (Sender event) @ ''** '' @ Action event @ '' [#'' @
             fmt_d (pr_Number (PullRequest event)) @ '': '' @ pr_Title (PullRequest event) @
             ''](''  @ pr_HTMLURL (PullRequest event) @ '')''"
  using assms
  by (auto simp add: handlePullRequestEvent_def lookup_actionsToProcess
      posts_sendDiscordMessage Let_def)

theorem pull_request_opened_notifies_development_witness:
  "Action opened_event = ''opened'' \<and>
   (\<exists>message embed.
      posts (handlePullRequestEvent example_channels accepting_network opened_event) =
        [(''https://discord.test/dev'', message)] \<and>
      Embeds message = [embed] \<and>
      Color embed = 0x1D82F7 \<and>
      Title embed = ''Pull Request opened'' \<and>
      Description embed = ''**alice** opened [#42: Fix bug](http://x/42)'')"
  using pull_request_opened_notifies_development
    [of opened_event example_channels accepting_network]
  by (simp add: opened_event_def example_channels_def fmt_d_42)

text \<open>
  Claim C2. For every pull-request event with action \<open>closed\<close> and \<open>merged\<close> true, the
  handler issues exactly one outbound request, whose embed has color 0x6E48CD and the
  display label \<open>merged\<close>: the title is \<open>Pull Request merged\<close>, and the description
  says \<open>merged\<close> where it would otherwise repeat the action.
\<close>

theorem pull_request_merged_notifies_purple:
  assumes "Action event = ''closed''" and "pr_Merged (PullRequest event)"
  shows "\<exists>message embed.
           posts (handlePullRequestEvent cfg net event) =
             [(developmentChannelWebhook cfg, message)] \<and>
           Embeds message = [embed] \<and>
           Color embed = 0x6E48CD \<and>
           Title embed = ''Pull Request merged'' \<and>
           Description embed =
             ''**'' @ sender_Login (Sender event) @ ''** merged [#'' @
             fmt_d (pr_Number (PullRequest event)) @ '': '' @ pr_Title (PullRequest event) @
             ''](''  @ pr_HTMLURL (PullRequest event) @ '')''"
  using assms
  by (simp add: handlePullRequestEvent_def lookup_actionsToProcess
      posts_sendDiscordMessage Let_def)

theorem pull_request_merged_notifies_purple_witness:
  "Action merged_event = ''closed'' \<and> pr_Merged (PullRequest merged_event) \<and>
   (\<exists>message embed.
      posts (handlePullRequestEvent example_channels failing_network merged_event) =
        [(''https://discord.test/dev'', message)] \<and>
      Embeds message = [embed] \<and>
      Color embed = 0x6E48CD \<and>
      Title embed = ''Pull Request merged'' \<and>
      Description embed = ''**alice** merged [#42: Fix bug](http://x/42)'')"
  using pull_request_merged_notifies_purple
    [of merged_event example_channels failing_network]
  by (simp add: merged_event_def opened_event_def example_channels_def fmt_d_42)

text \<open>
  Claim C3. For every pull-request event whose action is none of \<open>opened\<close>,
  \<open>reopened\<close>, \<open>ready_for_review\<close>, \<open>closed\<close>, and for every event with action
  \<open>closed\<close> and \<open>merged\<close> false, the handler issues no outbound request.
\<close>

theorem pull_request_other_actions_silent:
  assumes "(Action event \<noteq> ''opened'' \<and> Action event \<noteq> ''reopened'' \<and>
            Action event \<noteq> ''ready_for_review'' \<and> Action event \<noteq> ''closed'') \<or>
           (Action event = ''closed'' \<and> \<not> pr_Merged (PullRequest event))"
  shows "posts (handlePullRequestEvent cfg net event) = []"
  using assms
  by (auto simp add: handlePullRequestEvent_def lookup_actionsToProcess)

theorem pull_request_other_actions_silent_witness:
  "Action labeled_event \<noteq> ''opened'' \<and> Action labeled_event \<noteq> ''reopened'' \<and>
   Action labeled_event \<noteq> ''ready_for_review'' \<and> Action labeled_event \<noteq> ''closed'' \<and>
   posts (handlePullRequestEvent example_channels accepting_network labeled_event) = [] \<and>
   Action closed_event = ''closed'' \<and> \<not> pr_Merged (PullRequest closed_event) \<and>
   posts (handlePullRequestEvent example_channels accepting_network closed_event) = []"
  using pull_request_other_actions_silent
    [of labeled_event example_channels accepting_network]
    pull_request_other_actions_silent
    [of closed_event example_channels accepting_network]
  by (simp add: labeled_event_def closed_event_def opened_event_def)

text \<open>
  Claim C8. Whenever the pull-request handler issues an outbound request, it is a
  single one whose message has one embed: titled \<open>Pull Request <label>\<close>; described as
  \<open>**<login>** <label> [#<number>: <title>](<url>)\<close> from the sender's login, the
  label and the pull request's number, title and URL; linking to the pull request's
  URL; and with the two inline fields \<open>Repository\<close>, the repository's full name linked
  to its URL, and \<open>PR Status\<close>, the pull request's state as received. The label is
  \<open>merged\<close> for a merged \<open>closed\<close> event and the action otherwise.
\<close>

theorem pull_request_notification_content:
  assumes "posts (handlePullRequestEvent cfg net event) \<noteq> []"
  shows "let label = (if Action event = ''closed'' \<and> pr_Merged (PullRequest event)
                      then ''merged'' else Action event)
         in \<exists>url message embed.
              posts (handlePullRequestEvent cfg net event) = [(url, message)] \<and>
              Embeds message = [embed] \<and>
              Title embed = ''Pull Request '' @ label \<and>
              Description embed =
                ''**'' @ sender_Login (Sender event) @ ''** '' @ label @ '' [#'' @
                fmt_d (pr_Number (PullRequest event)) @ '': '' @
                pr_Title (PullRequest event) @ ''](''  @ pr_HTMLURL (PullRequest event) @ '')'' \<and>
              URL embed = pr_HTMLURL (PullRequest event) \<and>
              Fields embed =
                [\<lparr>Name = ''Repository'',
                  Value = ''['' @ repo_FullName (Repository event) @ ''](''  @
                          repo_HTMLURL (Repository event) @ '')'',
                  Inline = True\<rparr>,
                 \<lparr>Name = ''PR Status'', Value = pr_State (PullRequest event),
                  Inline = True\<rparr>]"
proof -
  from assms have "Action event = ''opened'' \<or> Action event = ''reopened'' \<or>
      Action event = ''ready_for_review'' \<or>
      (Action event = ''closed'' \<and> pr_Merged (PullRequest event))"
    by (simp only: handlePullRequestEvent_notifies_iff)
  then show ?thesis
    by (auto simp add: handlePullRequestEvent_def lookup_actionsToProcess
        posts_sendDiscordMessage Let_def)
qed

theorem pull_request_notification_content_witness:
  "posts (handlePullRequestEvent example_channels accepting_network merged_event) \<noteq> [] \<and>
   (\<exists>url message embed.
      posts (handlePullRequestEvent example_channels accepting_network merged_event) =
        [(url, message)] \<and>
      Embeds message = [embed] \<and>
      Title embed = ''Pull Request merged'' \<and>
      Description embed = ''**alice** merged [#42: Fix bug](http://x/42)'' \<and>
      URL embed = ''http://x/42'' \<and>
      Fields embed =
        [\<lparr>Name = ''Repository'', Value = ''[org/repo](http://x)'', Inline = True\<rparr>,
         \<lparr>Name = ''PR Status'', Value = ''closed'', Inline = True\<rparr>])"
  using pull_request_notification_content
    [of example_channels accepting_network merged_event]
  by (simp add: handlePullRequestEvent_notifies_iff merged_event_def opened_event_def
      fmt_d_42)

subsection \<open>The workflow-run handler\<close>

text \<open>
  Claim C4. For every workflow-run event with action \<open>completed\<close>, the handler issues
  exactly one outbound request, to the testing channel, and the color of its embed
  is a function of the run's conclusion alone: 0x2ECC71 for \<open>success\<close>, 0xE74C3C for
  \<open>failure\<close>, 0xF39C12 for \<open>cancelled\<close>, 0x95A5A6 for \<open>skipped\<close> and 0xE6E6E6 for
  anything else, the empty string included.
\<close>

theorem workflow_run_completed_notifies_testing:
  assumes "Action event = ''completed''"
  shows "\<exists>message embed.
           posts (handleWorkflowRunEvent cfg net event) =
             [(testingChannelWebhook cfg, message)] \<and>
           Embeds message = [embed] \<and>
           Color embed =
             (if run_Conclusion (WorkflowRun event) = ''success'' then 0x2ECC71
              else if run_Conclusion (WorkflowRun event) = ''failure'' then 0xE74C3C
              else if run_Conclusion (WorkflowRun event) = ''cancelled'' then 0xF39C12
              else if run_Conclusion (WorkflowRun event) = ''skipped'' then 0x95A5A6
              else 0xE6E6E6)"
  using assms
  by (simp add: handleWorkflowRunEvent_def posts_sendDiscordMessage Let_def)

theorem workflow_run_completed_notifies_testing_witness:
  "Action failure_event = ''completed'' \<and>
   (\<exists>message embed.
      posts (handleWorkflowRunEvent example_channels accepting_network failure_event) =
        [(''https://discord.test/testing'', message)] \<and>
      Embeds message = [embed] \<and>
      Color embed = 0xE74C3C)"
  using workflow_run_completed_notifies_testing
    [of failure_event example_channels accepting_network]
  by (simp add: failure_event_def example_channels_def)

text \<open>
  Claim C5. For every workflow-run event whose action is not \<open>completed\<close>, such as
  \<open>queued\<close> or \<open>in_progress\<close>, the handler issues no outbound request.
\<close>

theorem workflow_run_incomplete_silent:
  assumes "Action event \<noteq> ''completed''"
  shows "posts (handleWorkflowRunEvent cfg net event) = []"
  using assms
  by (simp add: handleWorkflowRunEvent_def)

theorem workflow_run_incomplete_silent_witness:
  "Action queued_event \<noteq> ''completed'' \<and>
   posts (handleWorkflowRunEvent example_channels accepting_network queued_event) = []"
  using workflow_run_incomplete_silent
    [of queued_event example_channels accepting_network]
  by (simp add: queued_event_def failure_event_def)

subsection \<open>Both handlers\<close>

text \<open>
  Claim C9. Every message that either handler posts, for any event, has empty
  top-level content and exactly one embed, and that embed has exactly two fields, both
  inline.
\<close>

theorem notification_shape:
  "\<forall>(url, message) \<in> set (posts (handlePullRequestEvent cfg net pr_event)) \<union>
                      set (posts (handleWorkflowRunEvent cfg' net' run_event)).
     Content message = '''' \<and> length (Embeds message) = 1 \<and>
     (\<forall>embed \<in> set (Embeds message).
        length (Fields embed) = 2 \<and> (\<forall>field \<in> set (Fields embed). Inline field))"
  by (simp add: handlePullRequestEvent_def handleWorkflowRunEvent_def
      posts_sendDiscordMessage Let_def)

theorem notification_shape_witness:
  "(\<exists>url message embed field1 field2.
      (url, message) \<in>
        set (posts (handlePullRequestEvent example_channels accepting_network opened_event)) \<and>
      Content message = '''' \<and> Embeds message = [embed] \<and>
      Fields embed = [field1, field2] \<and> Inline field1 \<and> Inline field2) \<and>
   (\<exists>url message embed field1 field2.
      (url, message) \<in>
        set (posts (handleWorkflowRunEvent example_channels failing_network failure_event)) \<and>
      Content message = '''' \<and> Embeds message = [embed] \<and>
      Fields embed = [field1, field2] \<and> Inline field1 \<and> Inline field2)"
proof -
  let ?pr = "posts (handlePullRequestEvent example_channels accepting_network opened_event)"
  let ?run = "posts (handleWorkflowRunEvent example_channels failing_network failure_event)"
  let ?shaped = "\<lambda>message. Content message = '''' \<and> length (Embeds message) = 1 \<and>
      (\<forall>embed \<in> set (Embeds message).
         length (Fields embed) = 2 \<and> (\<forall>field \<in> set (Fields embed). Inline field))"
  have all: "\<forall>(url, message) \<in> set ?pr \<union> set ?run. ?shaped message"
    by (rule notification_shape)
  have unfold: "\<exists>embed field1 field2.
      Content message = '''' \<and> Embeds message = [embed] \<and>
      Fields embed = [field1, field2] \<and> Inline field1 \<and> Inline field2"
    if "?shaped message" for message
  proof -
    from that obtain embed where embed: "Embeds message = [embed]"
      by (auto simp add: length_Suc_conv)
    with that have "length (Fields embed) = 2" and inl: "\<forall>field \<in> set (Fields embed). Inline field"
      by simp_all
    then obtain field1 field2 where "Fields embed = [field1, field2]"
      by (auto simp add: length_Suc_conv numeral_2_eq_2)
    with that embed inl show ?thesis by simp
  qed
  have "?pr \<noteq> []"
    by (simp add: handlePullRequestEvent_notifies_iff opened_event_def)
  then obtain url message where pr: "(url, message) \<in> set ?pr"
    by (cases ?pr) auto
  with all have "?shaped message" by blast
  from unfold [OF this] pr have first: "\<exists>url message embed field1 field2.
      (url, message) \<in> set ?pr \<and>
      Content message = '''' \<and> Embeds message = [embed] \<and>
      Fields embed = [field1, field2] \<and> Inline field1 \<and> Inline field2"
    by blast
  have "?run \<noteq> []"
    by (simp add: handleWorkflowRunEvent_notifies_iff failure_event_def)
  then obtain url' message' where run: "(url', message') \<in> set ?run"
    by (cases ?run) auto
  with all have "?shaped message'" by blast
  from unfold [OF this] run have "\<exists>url message embed field1 field2.
      (url, message) \<in> set ?run \<and>
      Content message = '''' \<and> Embeds message = [embed] \<and>
      Fields embed = [field1, field2] \<and> Inline field1 \<and> Inline field2"
    by blast
  with first show ?thesis by (rule conjI)
qed

text \<open>
  Claim C10. What a handler posts is a function of the event and the channel
  addresses alone. The messages are the same whatever the channels and whatever the
  network answers, so the decision to notify and the message built depend on the event
  only; and every request of the pull-request handler goes to the development channel,
  every request of the workflow-run handler to the testing channel.
\<close>

theorem handlers_depend_on_event_only:
  "map snd (posts (handlePullRequestEvent cfg net event)) =
     map snd (posts (handlePullRequestEvent cfg' net' event)) \<and>
   map snd (posts (handleWorkflowRunEvent cfg net event)) =
     map snd (posts (handleWorkflowRunEvent cfg' net' event)) \<and>
   (\<forall>url \<in> set (map fst (posts (handlePullRequestEvent cfg net event))).
      url = developmentChannelWebhook cfg) \<and>
   (\<forall>url \<in> set (map fst (posts (handleWorkflowRunEvent cfg net event))).
      url = testingChannelWebhook cfg)"
  by (simp add: handlePullRequestEvent_def handleWorkflowRunEvent_def
      posts_sendDiscordMessage Let_def)

theorem handlers_depend_on_event_only_witness:
  "map snd (posts (handlePullRequestEvent example_channels accepting_network opened_event)) =
     map snd (posts (handlePullRequestEvent other_channels failing_network opened_event)) \<and>
   map snd (posts (handleWorkflowRunEvent example_channels accepting_network failure_event)) =
     map snd (posts (handleWorkflowRunEvent other_channels failing_network failure_event)) \<and>
   set (map fst
     (posts (handlePullRequestEvent example_channels accepting_network opened_event))) =
     {''https://discord.test/dev''} \<and>
   set (map fst
     (posts (handleWorkflowRunEvent example_channels accepting_network failure_event))) =
     {''https://discord.test/testing''}"
proof -
  let ?pr = "posts (handlePullRequestEvent example_channels accepting_network opened_event)"
  let ?run = "posts (handleWorkflowRunEvent example_channels accepting_network failure_event)"
  note pr = handlers_depend_on_event_only
    [of example_channels accepting_network opened_event other_channels failing_network]
  note run = handlers_depend_on_event_only
    [of example_channels accepting_network failure_event other_channels failing_network]
  have "?pr \<noteq> []"
    by (simp add: handlePullRequestEvent_notifies_iff opened_event_def)
  with pr have dev: "set (map fst ?pr) = {''https://discord.test/dev''}"
    by (cases ?pr) (auto simp add: example_channels_def)
  have "?run \<noteq> []"
    by (simp add: handleWorkflowRunEvent_notifies_iff failure_event_def)
  with run have test: "set (map fst ?run) = {''https://discord.test/testing''}"
    by (cases ?run) (auto simp add: example_channels_def)
  from pr run dev test show ?thesis by simp
qed

subsection \<open>The webhook endpoint\<close>

text \<open>
  Claim C6. For every request whose body is not well-formed JSON, whatever its
  headers, the response is 400 with the JSON object \<open>{"error": "Invalid JSON
  payload"}\<close>; the only effects are the two log lines of the endpoint itself, so
  neither handler runs and no outbound request is issued.
\<close>

theorem malformed_body_rejected:
  "handleGitHubWebhook cfg net headers (Body Malformed) =
     ([Logf ''Received GitHub webhook event: %s'' [Str (GetHeader headers ''X-GitHub-Event'')],
       Logf ''Error parsing webhook payload: %v'' [Err SyntaxError]],
      \<lparr>status = 400, obj = [(''error'', ''Invalid JSON payload'')]\<rparr>) \<and>
   posts (fst (handleGitHubWebhook cfg net headers (Body Malformed))) = []"
  by (simp add: handleGitHubWebhook_def Unmarshal_def Let_def)

text \<open>
  Claim C7 says that every well-formed JSON body is answered with 200, and that 400
  is reserved for bodies that are not JSON. The body \<open>{"action": 1}\<close> is well-formed
  JSON and is answered with 400: the decoder cannot store a number into the string
  field \<open>Action\<close> and returns an error.
\<close>

theorem wellformed_mistyped_body_rejected:
  "snd (handleGitHubWebhook example_channels accepting_network
          [(''X-GitHub-Event'', ''pull_request'')]
          (Body (Wellformed (JObject [(''action'', JNumber ''1'')])))) =
     \<lparr>status = 400, obj = [(''error'', ''Invalid JSON payload'')]\<rparr>"
  using Unmarshal_mistyped_payload
  by (simp add: handleGitHubWebhook_def mistyped_payload_def Let_def)

text \<open>
  Claim C7, amended. For every request whose body is read and decoded into an event
  without error, the response is 200 with the JSON object \<open>{"message": "Webhook
  received successfully"}\<close>, whatever the \<open>X-GitHub-Event\<close> header (an unknown type
  and an absent header included) and whatever was or was not posted. The response is
  400 exactly when the body cannot be read or the decoder returns an error, which it
  does for a body that is not well-formed JSON and also for well-formed JSON that does
  not fit the types of the event's fields.
\<close>

theorem webhook_status_follows_decoding:
  "(Unmarshal body = Inr event \<longrightarrow>
      snd (handleGitHubWebhook cfg net headers (Body body)) =
        \<lparr>status = 200, obj = [(''message'', ''Webhook received successfully'')]\<rparr>) \<and>
   (status (snd (handleGitHubWebhook cfg net headers reqBody)) = 400 \<longleftrightarrow>
      reqBody = Unreadable \<or> (\<exists>body err. reqBody = Body body \<and> Unmarshal body = Inl err))"
  by (auto simp add: handleGitHubWebhook_def Let_def split: request_body.splits sum.splits)

theorem webhook_status_follows_decoding_witness:
  "Unmarshal opened_payload = Inr opened_event \<and>
   snd (handleGitHubWebhook example_channels accepting_network [] (Body opened_payload)) =
     \<lparr>status = 200, obj = [(''message'', ''Webhook received successfully'')]\<rparr> \<and>
   Unmarshal mistyped_payload = Inl UnmarshalTypeError \<and>
   status (snd (handleGitHubWebhook example_channels accepting_network []
                  (Body mistyped_payload))) = 400"
  using webhook_status_follows_decoding
    [of opened_payload opened_event example_channels accepting_network "[]"
        "Body mistyped_payload"]
  by (simp add: Unmarshal_opened_payload Unmarshal_mistyped_payload)

subsection \<open>The scenarios, end to end\<close>

text \<open>
  The two example requests run through the whole endpoint: decoding, routing, the
  handler, the outbound request and the acknowledgment.
\<close>

lemma scenario_pull_request_opened:
  "handleGitHubWebhook example_channels accepting_network
     [(''X-GitHub-Event'', ''pull_request'')] (Body opened_payload) =
   ([Logf ''Received GitHub webhook event: %s'' [Str ''pull_request''],
     Logf ''Processing pull request event: %s'' [Str ''opened''],
     Post ''https://discord.test/dev''
       \<lparr>Content = '''', Embeds =
          [\<lparr>Title = ''Pull Request opened'',
            Description = ''**alice** opened [#42: Fix bug](http://x/42)'',
            Color = 0x1D82F7,
            URL = ''http://x/42'',
            Fields =
              [\<lparr>Name = ''Repository'', Value = ''[org/repo](http://x)'', Inline = True\<rparr>,
               \<lparr>Name = ''PR Status'', Value = '''', Inline = True\<rparr>]\<rparr>]\<rparr>,
     Logf ''Discord message sent successfully'' []],
    \<lparr>status = 200, obj = [(''message'', ''Webhook received successfully'')]\<rparr>)"
  by (simp add: handleGitHubWebhook_def GetHeader_def Unmarshal_opened_payload
      handlePullRequestEvent_def lookup_actionsToProcess sendDiscordMessage_def
      example_channels_def accepting_network_def opened_event_def fmt_d_42 Let_def)

lemma scenario_workflow_run_failure:
  "handleGitHubWebhook example_channels failing_network
     [(''X-GitHub-Event'', ''workflow_run'')] (Body failure_payload) =
   ([Logf ''Received GitHub webhook event: %s'' [Str ''workflow_run''],
     Logf ''Processing workflow run event: %s'' [Str ''completed''],
     Post ''https://discord.test/testing''
       \<lparr>Content = '''', Embeds =
          [\<lparr>Title = ''Workflow Run failure'',
            Description = ''Workflow **CI** failure'',
            Color = 0xE74C3C,
            URL = ''http://x/run'',
            Fields =
              [\<lparr>Name = ''Repository'', Value = ''[]()'', Inline = True\<rparr>,
               \<lparr>Name = ''Triggered by'', Value = ''[]()'', Inline = True\<rparr>]\<rparr>]\<rparr>,
     Logf ''Error sending Discord message: %v'' [Err TransportError]],
    \<lparr>status = 200, obj = [(''message'', ''Webhook received successfully'')]\<rparr>)"
  by code_simp

end
